theory Spec2Isabelle
  imports Main
begin

section \<open>Data model of \<^verbatim>\<open>src/script/media/MediaDevicesHandler.ts\<close>\<close>

text \<open>
  \<^verbatim>\<open>type DeviceTypes = 'audioInput' | 'audioOutput' | 'screenInput' | 'videoInput'\<close>.
  The TypeScript \<^verbatim>\<open>Record<DeviceTypes, X>\<close> objects of the handler are functions from
  this type.
\<close>

datatype DeviceTypes = audioInput | audioOutput | screenInput | videoInput

text \<open>
  A device object as the handler reads it. \<^verbatim>\<open>deviceId\<close> is the attribute of the DOM's
  \<^verbatim>\<open>MediaDeviceInfo\<close>; \<^verbatim>\<open>id\<close> is the attribute read through \<^verbatim>\<open>(device as any).id\<close>
  (field \<open>id_attr\<close> here, since \<open>id\<close> is the identity function of HOL). Either may be
  \<^verbatim>\<open>undefined\<close> on a given object, which is \<open>None\<close>. \<^verbatim>\<open>kind\<close> is the string the
  platform reports.
\<close>

record MediaDeviceInfo =
  deviceId :: "string option"
  id_attr :: "string option"
  kind :: string
  label :: string

text \<open>
  The enum \<^verbatim>\<open>MediaDeviceType\<close> is imported from \<^verbatim>\<open>./MediaDeviceType\<close>, which is not
  among the sources: its four string constants are a parameter of every operation that
  reads them.
\<close>

record MediaDeviceType =
  AUDIO_INPUT :: string
  AUDIO_OUTPUT :: string
  SCREEN_INPUT :: string
  VIDEO_INPUT :: string

text \<open>
  Values a promise of the handler rejects with. \<open>TypeError\<close> is what the runtime throws
  on a property read of \<^verbatim>\<open>undefined\<close> (its message depends on the engine and is left
  out), \<open>Error m\<close> is \<^verbatim>\<open>new Error(m)\<close>, and \<open>HostError n\<close> is an error named \<open>n\<close>
  handed over by a collaborator (the device enumerator, the screen capturer).
\<close>

datatype js_error = TypeError | Error string | HostError string

fun error_name :: "js_error \<Rightarrow> string" where
  "error_name TypeError = ''TypeError''"
| "error_name (Error m) = ''Error''"
| "error_name (HostError n) = n"

text \<open>
  The handler (\<open>availableDevices\<close>, \<open>currentDeviceId\<close>), the two flags that record
  whether \<^verbatim>\<open>_subscribeToObservables\<close> and \<^verbatim>\<open>_subscribeToDevices\<close> have run, and the
  key/value store behind \<^verbatim>\<open>loadValue\<close>/\<^verbatim>\<open>storeValue\<close>. An observable of
  \<open>currentDeviceId\<close> holds what it was created with or last written: a string, or
  \<^verbatim>\<open>undefined\<close> (\<open>None\<close>) when it was created from an absent value.
\<close>

record world =
  availableDevices :: "DeviceTypes \<Rightarrow> MediaDeviceInfo list"
  currentDeviceId :: "DeviceTypes \<Rightarrow> string option"
  observablesSubscribed :: bool
  devicesSubscribed :: bool
  storage :: "string \<rightharpoonup> string"

section \<open>Configuration\<close>

text \<open>\<^verbatim>\<open>MediaDevicesHandler.CONFIG.DEFAULT_DEVICE\<close>.\<close>

fun DEFAULT_DEVICE :: "DeviceTypes \<Rightarrow> string" where
  "DEFAULT_DEVICE audioInput = ''default''"
| "DEFAULT_DEVICE audioOutput = ''default''"
| "DEFAULT_DEVICE screenInput = ''screen''"
| "DEFAULT_DEVICE videoInput = ''default''"

section \<open>Resolving the available device id\<close>

text \<open>
  JavaScript's \<^verbatim>\<open>a || b\<close> on two attributes that are a string or \<^verbatim>\<open>undefined\<close>: \<^verbatim>\<open>a\<close>
  when it is truthy (a non-empty string), \<^verbatim>\<open>b\<close> otherwise.
\<close>

definition js_or :: "string option \<Rightarrow> string option \<Rightarrow> string option" where
  "js_or a b = (case a of None \<Rightarrow> b | Some x \<Rightarrow> if x = [] then b else Some x)"

text \<open>
  \<^verbatim>\<open>getCurrentAvailableDeviceId\<close> of the constructor. \<^verbatim>\<open>Array.prototype.find\<close> returns
  the first device that satisfies the predicate, an object and hence truthy, or
  \<^verbatim>\<open>undefined\<close>. The strict equality \<^verbatim>\<open>===\<close> holds between two equal strings and
  between \<^verbatim>\<open>undefined\<close> and \<^verbatim>\<open>undefined\<close>. The result is the empty string, the value
  of the observable, or the configured default.
\<close>

definition getCurrentAvailableDeviceId :: "world \<Rightarrow> DeviceTypes \<Rightarrow> string option" where
  "getCurrentAvailableDeviceId s deviceType =
     (let cur = currentDeviceId s deviceType in
      if length (availableDevices s deviceType) = 0 then Some ''''
      else
        (case find (\<lambda>device. js_or (deviceId device) (id_attr device) = cur)
                (availableDevices s deviceType) of
           Some isAvailable \<Rightarrow> cur
         | None \<Rightarrow> Some (DEFAULT_DEVICE deviceType)))"

text \<open>\<^verbatim>\<open>deviceSupport\<close>: \<^verbatim>\<open>!!this.availableDevices[c]().length\<close>.\<close>

definition deviceSupport :: "world \<Rightarrow> DeviceTypes \<Rightarrow> bool" where
  "deviceSupport s deviceType = (length (availableDevices s deviceType) \<noteq> 0)"

subsection \<open>The resolver as the specification words it\<close>

text \<open>
  \<^verbatim>\<open>resolve(category)\<close> of the specification, for a desired id that is a string: empty
  when nothing is known, the desired id when it is in \<^verbatim>\<open>{d.id for d in known}\<close>, the
  category default otherwise. The specification has both the primary and the
  secondary identifier of every device checked, so the desired id is among the known
  ids when it is the primary or the secondary identifier of a known device.
\<close>

definition resolve_spec :: "string \<Rightarrow> MediaDeviceInfo list \<Rightarrow> DeviceTypes \<Rightarrow> string" where
  "resolve_spec desired known c =
     (if known = [] then ''''
      else if Some desired \<in> set (map deviceId known) \<union> set (map id_attr known) then desired
      else DEFAULT_DEVICE c)"

subsection \<open>Matching a device against the desired id\<close>

text \<open>
  When a device counts as the desired one: by its primary identifier where it has a
  non-empty one, by its secondary identifier otherwise. The desired id is the value of
  the observable, a string or \<^verbatim>\<open>undefined\<close>.
\<close>

definition id_matches :: "MediaDeviceInfo \<Rightarrow> string option \<Rightarrow> bool" where
  "id_matches d desired =
     (case deviceId d of
        None \<Rightarrow> id_attr d = desired
      | Some primary \<Rightarrow> if primary = [] then id_attr d = desired else Some primary = desired)"

section \<open>The key/value store\<close>

text \<open>
  Modelled from the spec: \<^verbatim>\<open>loadValue\<close> of \<^verbatim>\<open>Util/StorageUtil\<close> is not among the sources.
  It is the read of the persistence store, which the specification gives as
  \<^verbatim>\<open>load(key) -> string | absent\<close>: the string stored under the key, or absent (\<open>None\<close>,
  JavaScript's \<^verbatim>\<open>undefined\<close>) when nothing is stored there.
\<close>

definition loadValue :: "(string \<rightharpoonup> string) \<Rightarrow> string \<Rightarrow> string option" where
  "loadValue st key = st key"

text \<open>
  Modelled from the spec: \<^verbatim>\<open>storeValue\<close> of \<^verbatim>\<open>Util/StorageUtil\<close> is not among the
  sources. The specification's \<^verbatim>\<open>store(key, value)\<close> puts the value under the key.
\<close>

definition storeValue :: "string \<Rightarrow> string \<Rightarrow> (string \<rightharpoonup> string) \<Rightarrow> (string \<rightharpoonup> string)" where
  "storeValue key v st = st(key \<mapsto> v)"

section \<open>Construction and subscriptions\<close>

text \<open>
  The constructor up to the call of \<^verbatim>\<open>_initializeMediaDevices\<close>: four empty observable
  arrays, and four observables created with \<^verbatim>\<open>ko.observable(loadValue(key))\<close>, which
  hold what \<^verbatim>\<open>loadValue\<close> returns for the category's key, as it is. Nothing is
  subscribed yet.
\<close>

definition MediaDevicesHandler_constructor :: "MediaDeviceType \<Rightarrow> (string \<rightharpoonup> string) \<Rightarrow> world" where
  "MediaDevicesHandler_constructor mdt st =
     \<lparr> availableDevices = (\<lambda>deviceType. []),
       currentDeviceId = (\<lambda>deviceType. case deviceType of
           audioInput \<Rightarrow> loadValue st (AUDIO_INPUT mdt)
         | audioOutput \<Rightarrow> loadValue st (AUDIO_OUTPUT mdt)
         | screenInput \<Rightarrow> loadValue st (SCREEN_INPUT mdt)
         | videoInput \<Rightarrow> loadValue st (VIDEO_INPUT mdt)),
       observablesSubscribed = False,
       devicesSubscribed = False,
       storage = st \<rparr>"

text \<open>\<^verbatim>\<open>_subscribeToObservables\<close> and \<^verbatim>\<open>_subscribeToDevices\<close> install their callbacks.\<close>

definition subscribeToObservables :: "world \<Rightarrow> world" where
  "subscribeToObservables s = s\<lparr>observablesSubscribed := True\<rparr>"

definition subscribeToDevices :: "world \<Rightarrow> world" where
  "subscribeToDevices s = s\<lparr>devicesSubscribed := True\<rparr>"

text \<open>
  A write of a string to the observable \<^verbatim>\<open>currentDeviceId[deviceType]\<close>. A Knockout
  observable notifies its subscribers when the written string differs from what it holds. The
  subscribers are the three callbacks of \<^verbatim>\<open>_subscribeToObservables\<close>, once installed:
  audioInput, audioOutput and videoInput each store the new value under their key.
\<close>

definition write_currentDeviceId :: "MediaDeviceType \<Rightarrow> DeviceTypes \<Rightarrow> string \<Rightarrow> world \<Rightarrow> world" where
  "write_currentDeviceId mdt deviceType mediaDeviceId s =
     (if currentDeviceId s deviceType = Some mediaDeviceId then s
      else
        (let s' = s\<lparr>currentDeviceId := (currentDeviceId s)(deviceType := Some mediaDeviceId)\<rparr> in
         if observablesSubscribed s then
           (case deviceType of
              audioInput \<Rightarrow> s'\<lparr>storage := storeValue (AUDIO_INPUT mdt) mediaDeviceId (storage s')\<rparr>
            | audioOutput \<Rightarrow> s'\<lparr>storage := storeValue (AUDIO_OUTPUT mdt) mediaDeviceId (storage s')\<rparr>
            | videoInput \<Rightarrow> s'\<lparr>storage := storeValue (VIDEO_INPUT mdt) mediaDeviceId (storage s')\<rparr>
            | screenInput \<Rightarrow> s')
         else s'))"

section \<open>Refreshing the device lists\<close>

text \<open>\<^verbatim>\<open>_removeAllDevices\<close>: \<^verbatim>\<open>removeAll()\<close> on three of the four observable arrays.\<close>

definition removeAllDevices :: "world \<Rightarrow> world" where
  "removeAllDevices s =
     s\<lparr>availableDevices :=
         (availableDevices s)(audioInput := [], audioOutput := [], videoInput := [])\<rparr>"

text \<open>
  Modelled from the spec: \<^verbatim>\<open>koArrayPushAll\<close> of \<^verbatim>\<open>Util/util\<close> is not among the sources.
  It pushes all the given values onto the observable array, in their order; after
  \<^verbatim>\<open>removeAll()\<close> this is the specification's replacement of the stored sequence.
\<close>

definition koArrayPushAll :: "DeviceTypes \<Rightarrow> MediaDeviceInfo list \<Rightarrow> world \<Rightarrow> world" where
  "koArrayPushAll deviceType valuesToPush s =
     s\<lparr>availableDevices :=
         (availableDevices s)(deviceType := availableDevices s deviceType @ valuesToPush)\<rparr>"

text \<open>
  The \<^verbatim>\<open>mediaDevices.forEach\<close> loop with its three local arrays. A \<^verbatim>\<open>switch\<close> takes the
  first case whose constant is strictly equal to the device's kind; a kind that matches
  no case is skipped.
\<close>

fun forEach_mediaDevice ::
  "MediaDeviceType \<Rightarrow> MediaDeviceInfo list
     \<Rightarrow> MediaDeviceInfo list \<times> MediaDeviceInfo list \<times> MediaDeviceInfo list
     \<Rightarrow> MediaDeviceInfo list \<times> MediaDeviceInfo list \<times> MediaDeviceInfo list" where
  "forEach_mediaDevice mdt [] acc = acc"
| "forEach_mediaDevice mdt (mediaDevice # rest) (audioInputDevices, audioOutputDevices, videoInputDevices) =
     forEach_mediaDevice mdt rest
       (if kind mediaDevice = AUDIO_INPUT mdt
          then (audioInputDevices @ [mediaDevice], audioOutputDevices, videoInputDevices)
        else if kind mediaDevice = AUDIO_OUTPUT mdt
          then (audioInputDevices, audioOutputDevices @ [mediaDevice], videoInputDevices)
        else if kind mediaDevice = VIDEO_INPUT mdt
          then (audioInputDevices, audioOutputDevices, videoInputDevices @ [mediaDevice])
        else (audioInputDevices, audioOutputDevices, videoInputDevices))"

text \<open>
  \<^verbatim>\<open>refreshMediaDevices\<close>, run when the promise of \<^verbatim>\<open>enumerateDevices()\<close> settles. The
  argument is how it settled: \<open>Inl error\<close> when it rejected, \<open>Inr None\<close> when it resolved
  with a falsy value, \<open>Inr (Some mediaDevices)\<close> when it resolved with an array (an
  empty array is truthy). On rejection the \<^verbatim>\<open>catch\<close> handler logs and throws the error
  again, which skips the \<^verbatim>\<open>then\<close> callback. The result is how the returned promise
  settles, and the world after it.
\<close>

definition refreshMediaDevices ::
  "MediaDeviceType \<Rightarrow> js_error + MediaDeviceInfo list option \<Rightarrow> world
     \<Rightarrow> (js_error + MediaDeviceInfo list) \<times> world" where
  "refreshMediaDevices mdt enumerated s =
     (case enumerated of
        Inl error \<Rightarrow> (Inl error, s)
      | Inr result \<Rightarrow>
          (let s1 = removeAllDevices s in
           case result of
             Some mediaDevices \<Rightarrow>
               (case forEach_mediaDevice mdt mediaDevices ([], [], []) of
                  (audioInputDevices, audioOutputDevices, videoInputDevices) \<Rightarrow>
                    (Inr mediaDevices,
                     koArrayPushAll videoInput videoInputDevices
                       (koArrayPushAll audioOutput audioOutputDevices
                          (koArrayPushAll audioInput audioInputDevices s1))))
           | None \<Rightarrow> (Inl (Error ''No media devices found''), s1)))"

text \<open>
  \<^verbatim>\<open>_initializeMediaDevices\<close>, called last by the constructor: where the browser supports
  media devices, the first refresh, and both subscriptions once it has resolved.
\<close>

definition initializeMediaDevices ::
  "MediaDeviceType \<Rightarrow> bool \<Rightarrow> js_error + MediaDeviceInfo list option \<Rightarrow> world \<Rightarrow> world" where
  "initializeMediaDevices mdt supports_mediaDevices enumerated s =
     (if supports_mediaDevices then
        (case refreshMediaDevices mdt enumerated s of
           (Inr mediaDevices, s') \<Rightarrow> subscribeToDevices (subscribeToObservables s')
         | (Inl error, s') \<Rightarrow> s')
      else s)"

section \<open>Screen sources\<close>

text \<open>
  \<^verbatim>\<open>getScreenSources\<close>. The first argument is \<^verbatim>\<open>window.desktopCapturer\<close>: \<open>None\<close> when the
  host has none (the property is \<^verbatim>\<open>undefined\<close>), otherwise the two arguments with which
  its \<^verbatim>\<open>getSources\<close> calls the callback back. Reading \<^verbatim>\<open>getSources\<close> of \<^verbatim>\<open>undefined\<close>
  throws a \<^verbatim>\<open>TypeError\<close> inside the promise's executor, which rejects the promise.
\<close>

definition getScreenSources ::
  "(js_error option \<times> MediaDeviceInfo list) option \<Rightarrow> world
     \<Rightarrow> (js_error + MediaDeviceInfo list) \<times> world" where
  "getScreenSources desktopCapturer s =
     (case desktopCapturer of
        None \<Rightarrow> (Inl TypeError, s)
      | Some (error, screenSources) \<Rightarrow>
          (case error of
             Some e \<Rightarrow> (Inl e, s)
           | None \<Rightarrow>
               (Inr screenSources,
                s\<lparr>availableDevices := (availableDevices s)(screenInput := screenSources)\<rparr>)))"

text \<open>The name of the error a promise rejected with, if it rejected.\<close>

definition rejection_name :: "js_error + 'a \<Rightarrow> string option" where
  "rejection_name r = (case r of Inl e \<Rightarrow> Some (error_name e) | Inr v \<Rightarrow> None)"

section \<open>Runs of the handler\<close>

text \<open>
  What happens to a constructed handler, in the order in which the single-threaded event
  loop runs it. \<open>RefreshIssued n\<close> is a call of \<^verbatim>\<open>refreshMediaDevices\<close>, which calls
  \<^verbatim>\<open>enumerateDevices()\<close> and touches nothing of the handler; \<open>RefreshSettled n r\<close> is
  the moment the enumeration of that call settles with \<open>r\<close> and the callbacks run. The
  number only names the call in a trace: the source keeps no such number.
\<close>

datatype event =
    RefreshIssued nat
  | RefreshSettled nat "js_error + MediaDeviceInfo list option"
  | ScreenSourcesSettled "(js_error option \<times> MediaDeviceInfo list) option"
  | DeviceIdWritten DeviceTypes string

fun step :: "MediaDeviceType \<Rightarrow> event \<Rightarrow> world \<Rightarrow> world" where
  "step mdt (RefreshIssued n) s = s"
| "step mdt (RefreshSettled n enumerated) s = snd (refreshMediaDevices mdt enumerated s)"
| "step mdt (ScreenSourcesSettled desktopCapturer) s = snd (getScreenSources desktopCapturer s)"
| "step mdt (DeviceIdWritten deviceType mediaDeviceId) s =
     write_currentDeviceId mdt deviceType mediaDeviceId s"

fun run :: "MediaDeviceType \<Rightarrow> event list \<Rightarrow> world \<Rightarrow> world" where
  "run mdt [] s = s"
| "run mdt (ev # evs) s = run mdt evs (step mdt ev s)"

section \<open>Concrete inputs\<close>

definition sample_MediaDeviceType :: MediaDeviceType where
  "sample_MediaDeviceType =
     \<lparr> AUDIO_INPUT = ''audioinput'', AUDIO_OUTPUT = ''audiooutput'',
       SCREEN_INPUT = ''screeninput'', VIDEO_INPUT = ''videoinput'' \<rparr>"

definition mic1 :: MediaDeviceInfo where
  "mic1 = \<lparr> deviceId = Some ''mic1'', id_attr = None, kind = ''audioinput'', label = ''Mic 1'' \<rparr>"

definition mic2 :: MediaDeviceInfo where
  "mic2 = \<lparr> deviceId = Some ''mic2'', id_attr = None, kind = ''audioinput'', label = ''Mic 2'' \<rparr>"

definition speaker1 :: MediaDeviceInfo where
  "speaker1 = \<lparr> deviceId = Some ''spk1'', id_attr = None, kind = ''audiooutput'', label = ''Speaker'' \<rparr>"

definition cam1 :: MediaDeviceInfo where
  "cam1 = \<lparr> deviceId = Some ''cam1'', id_attr = Some ''legacy1'', kind = ''videoinput'', label = ''Camera'' \<rparr>"

definition midi1 :: MediaDeviceInfo where
  "midi1 = \<lparr> deviceId = Some ''midi1'', id_attr = None, kind = ''midiinput'', label = ''Keyboard'' \<rparr>"

definition screen1 :: MediaDeviceInfo where
  "screen1 = \<lparr> deviceId = None, id_attr = Some ''screen:0'', kind = ''screen'', label = ''Entire screen'' \<rparr>"

definition sample_world :: world where
  "sample_world =
     \<lparr> availableDevices = (\<lambda>deviceType. [])(audioInput := [mic2], videoInput := [cam1], screenInput := [screen1]),
       currentDeviceId = (\<lambda>deviceType. Some '''')(videoInput := Some ''legacy1'', audioInput := Some ''mic1''),
       observablesSubscribed = True,
       devicesSubscribed = True,
       storage = Map.empty \<rparr>"

text \<open>
  A microphone as a browser lists it before the page may use it, with an empty
  \<^verbatim>\<open>deviceId\<close> and an empty label, in a handler whose user has chosen no device.
\<close>

definition unnamed_mic :: MediaDeviceInfo where
  "unnamed_mic = \<lparr> deviceId = Some '''', id_attr = None, kind = ''audioinput'', label = '''' \<rparr>"

definition unnamed_world :: world where
  "unnamed_world =
     \<lparr> availableDevices = (\<lambda>deviceType. [])(audioInput := [unnamed_mic]),
       currentDeviceId = (\<lambda>deviceType. Some ''''),
       observablesSubscribed = True,
       devicesSubscribed = True,
       storage = Map.empty \<rparr>"

section \<open>Properties of the resolver\<close>

lemmas sample_defs = sample_MediaDeviceType_def sample_world_def mic1_def mic2_def
  speaker1_def cam1_def midi1_def screen1_def

lemma find_id_matches:
  "(find (\<lambda>device. js_or (deviceId device) (id_attr device) = cur) ds = None)
     = (\<not> (\<exists>d \<in> set ds. id_matches d cur))"
  by (induction ds) (auto simp: js_or_def id_matches_def split: option.splits if_splits)

text \<open>
  A device that matches a desired string for the source carries that string as its
  primary or as its secondary identifier.
\<close>

lemma id_matches_listed:
  "id_matches d (Some desired) \<Longrightarrow> deviceId d = Some desired \<or> id_attr d = Some desired"
  by (auto simp: id_matches_def split: option.splits if_splits)

text \<open>
  So, for a desired id that is a string, the resolver departs from the specification's
  \<^verbatim>\<open>resolve\<close> only by falling back to the category default.
\<close>

lemma resolver_agrees_or_defaults:
  assumes "currentDeviceId s c = Some desired"
  shows "getCurrentAvailableDeviceId s c = Some (resolve_spec desired (availableDevices s c) c)
       \<or> getCurrentAvailableDeviceId s c = Some (DEFAULT_DEVICE c)"
proof (cases "find (\<lambda>device. js_or (deviceId device) (id_attr device) = currentDeviceId s c)
                  (availableDevices s c)")
  case None
  then show ?thesis
    by (simp add: getCurrentAvailableDeviceId_def resolve_spec_def)
next
  case (Some d)
  then have "\<exists>d \<in> set (availableDevices s c). id_matches d (Some desired)"
    using find_id_matches [of "currentDeviceId s c" "availableDevices s c"] assms by simp
  then obtain d' where d': "d' \<in> set (availableDevices s c)" "id_matches d' (Some desired)"
    by blast
  from id_matches_listed [OF d'(2)] d'(1)
  have "Some desired \<in> set (map deviceId (availableDevices s c)) \<union> set (map id_attr (availableDevices s c))"
    by force
  with Some d'(1) assms show ?thesis
    by (auto simp add: getCurrentAvailableDeviceId_def resolve_spec_def)
qed

text \<open>
  Claim C1, as amended. For every category and every desired id the resolved id is the
  empty string when the category's list is empty, the desired id when it equals the
  effective identifier of a known device of the category (the primary identifier when
  that is present and not empty, the secondary identifier otherwise), and the category's
  fixed default otherwise: \<^verbatim>\<open>'default'\<close> for audioInput, audioOutput and videoInput,
  \<^verbatim>\<open>'screen'\<close> for screenInput.
\<close>

theorem C1_resolved_by_effective_id:
  "getCurrentAvailableDeviceId s c =
     (if availableDevices s c = [] then Some ''''
      else if (\<exists>d \<in> set (availableDevices s c). id_matches d (currentDeviceId s c))
        then currentDeviceId s c
      else Some (DEFAULT_DEVICE c))
   \<and> DEFAULT_DEVICE c = (case c of screenInput \<Rightarrow> ''screen'' | _ \<Rightarrow> ''default'')"
proof
  show "getCurrentAvailableDeviceId s c =
     (if availableDevices s c = [] then Some ''''
      else if (\<exists>d \<in> set (availableDevices s c). id_matches d (currentDeviceId s c))
        then currentDeviceId s c
      else Some (DEFAULT_DEVICE c))"
  proof (cases "find (\<lambda>device. js_or (deviceId device) (id_attr device) = currentDeviceId s c)
                  (availableDevices s c)")
    case None
    then show ?thesis
      using find_id_matches [of "currentDeviceId s c" "availableDevices s c"]
      by (simp add: getCurrentAvailableDeviceId_def)
  next
    case (Some d)
    then show ?thesis
      using find_id_matches [of "currentDeviceId s c" "availableDevices s c"]
      by (auto simp add: getCurrentAvailableDeviceId_def)
  qed
  show "DEFAULT_DEVICE c = (case c of screenInput \<Rightarrow> ''screen'' | _ \<Rightarrow> ''default'')"
    by (cases c) simp_all
qed

text \<open>
  The claim as stated fails: the desired id is the empty string, the only known
  microphone has the empty string as its primary identifier, so the desired id is among
  the known ids and the specification's \<^verbatim>\<open>resolve\<close> returns it, and the resolver returns
  the default.
\<close>

theorem C1_empty_primary_id_not_matched:
  "availableDevices unnamed_world audioInput = [unnamed_mic]
   \<and> currentDeviceId unnamed_world audioInput = Some ''''
   \<and> deviceId unnamed_mic = Some ''''
   \<and> resolve_spec '''' [unnamed_mic] audioInput = ''''
   \<and> getCurrentAvailableDeviceId unnamed_world audioInput = Some ''default''
   \<and> getCurrentAvailableDeviceId unnamed_world audioInput
        \<noteq> Some (resolve_spec '''' [unnamed_mic] audioInput)"
  by (simp add: getCurrentAvailableDeviceId_def resolve_spec_def js_or_def
      unnamed_world_def unnamed_mic_def)

text \<open>
  Claim C5, as amended. A device matches the desired id exactly when the desired id
  equals its effective identifier: the primary identifier when that is present and not
  empty, the secondary identifier otherwise. The secondary attribute is read only for a
  device without a usable primary identifier.
\<close>

theorem C5_match_on_effective_identifier:
  "getCurrentAvailableDeviceId s c =
     (if availableDevices s c = [] then Some ''''
      else if (\<exists>d \<in> set (availableDevices s c). id_matches d (currentDeviceId s c))
        then currentDeviceId s c
      else Some (DEFAULT_DEVICE c))"
proof (cases "find (\<lambda>device. js_or (deviceId device) (id_attr device) = currentDeviceId s c)
                  (availableDevices s c)")
  case None
  then show ?thesis
    using find_id_matches [of "currentDeviceId s c" "availableDevices s c"]
    by (simp add: getCurrentAvailableDeviceId_def)
next
  case (Some d)
  then show ?thesis
    using find_id_matches [of "currentDeviceId s c" "availableDevices s c"]
    by (auto simp add: getCurrentAvailableDeviceId_def)
qed

text \<open>
  The claim as stated fails: the only known camera carries both identifiers, the desired
  id equals its secondary identifier, and the resolver does not return the desired id.
\<close>

theorem C5_secondary_id_not_checked:
  "availableDevices sample_world videoInput = [cam1]
   \<and> id_attr cam1 = currentDeviceId sample_world videoInput
   \<and> currentDeviceId sample_world videoInput = Some ''legacy1''
   \<and> getCurrentAvailableDeviceId sample_world videoInput \<noteq> currentDeviceId sample_world videoInput"
  by (simp add: getCurrentAvailableDeviceId_def js_or_def sample_defs)

section \<open>Properties of refreshing, screen sources and persistence\<close>

lemma forEach_mediaDevice_filter:
  assumes "distinct [AUDIO_INPUT mdt, AUDIO_OUTPUT mdt, VIDEO_INPUT mdt]"
  shows "forEach_mediaDevice mdt ds (ai, ao, vi) =
     (ai @ filter (\<lambda>d. kind d = AUDIO_INPUT mdt) ds,
      ao @ filter (\<lambda>d. kind d = AUDIO_OUTPUT mdt) ds,
      vi @ filter (\<lambda>d. kind d = VIDEO_INPUT mdt) ds)"
  using assms by (induction ds arbitrary: ai ao vi) auto

lemma refresh_resolved_result:
  "fst (refreshMediaDevices mdt (Inr (Some L)) s) = Inr L"
  by (simp add: refreshMediaDevices_def split: prod.splits)

lemma refresh_resolved_lists:
  assumes "distinct [AUDIO_INPUT mdt, AUDIO_OUTPUT mdt, VIDEO_INPUT mdt]"
  shows "availableDevices (snd (refreshMediaDevices mdt (Inr (Some L)) s)) c =
     (case c of
        audioInput \<Rightarrow> filter (\<lambda>d. kind d = AUDIO_INPUT mdt) L
      | audioOutput \<Rightarrow> filter (\<lambda>d. kind d = AUDIO_OUTPUT mdt) L
      | videoInput \<Rightarrow> filter (\<lambda>d. kind d = VIDEO_INPUT mdt) L
      | screenInput \<Rightarrow> availableDevices s screenInput)"
  using forEach_mediaDevice_filter [OF assms, of L "[]" "[]" "[]"]
  by (cases c) (simp_all add: refreshMediaDevices_def koArrayPushAll_def removeAllDevices_def)

text \<open>
  Claim C2. After a refresh whose enumeration resolved with the list \<open>L\<close>, the promise
  resolves with \<open>L\<close> and the stored sequence of each of audioInput, audioOutput and
  videoInput is exactly the devices of that kind in \<open>L\<close>, in the order of \<open>L\<close>, whatever
  was stored before. The three kind constants of the absent enum are taken to differ.
\<close>

theorem C2_refresh_replaces:
  assumes "distinct [AUDIO_INPUT mdt, AUDIO_OUTPUT mdt, VIDEO_INPUT mdt]"
  shows "fst (refreshMediaDevices mdt (Inr (Some L)) s) = Inr L
    \<and> availableDevices (snd (refreshMediaDevices mdt (Inr (Some L)) s)) audioInput
        = filter (\<lambda>d. kind d = AUDIO_INPUT mdt) L
    \<and> availableDevices (snd (refreshMediaDevices mdt (Inr (Some L)) s)) audioOutput
        = filter (\<lambda>d. kind d = AUDIO_OUTPUT mdt) L
    \<and> availableDevices (snd (refreshMediaDevices mdt (Inr (Some L)) s)) videoInput
        = filter (\<lambda>d. kind d = VIDEO_INPUT mdt) L"
  by (simp add: refresh_resolved_result refresh_resolved_lists [OF assms])

theorem C2_refresh_replaces_witness:
  "distinct [AUDIO_INPUT sample_MediaDeviceType, AUDIO_OUTPUT sample_MediaDeviceType,
       VIDEO_INPUT sample_MediaDeviceType]
   \<and> availableDevices sample_world audioInput = [mic2]
   \<and> fst (refreshMediaDevices sample_MediaDeviceType (Inr (Some [mic1, speaker1, midi1, cam1])) sample_world)
       = Inr [mic1, speaker1, midi1, cam1]
   \<and> availableDevices (snd (refreshMediaDevices sample_MediaDeviceType
         (Inr (Some [mic1, speaker1, midi1, cam1])) sample_world)) audioInput = [mic1]
   \<and> availableDevices (snd (refreshMediaDevices sample_MediaDeviceType
         (Inr (Some [mic1, speaker1, midi1, cam1])) sample_world)) audioOutput = [speaker1]
   \<and> availableDevices (snd (refreshMediaDevices sample_MediaDeviceType
         (Inr (Some [mic1, speaker1, midi1, cam1])) sample_world)) videoInput = [cam1]"
proof -
  have d: "distinct [AUDIO_INPUT sample_MediaDeviceType, AUDIO_OUTPUT sample_MediaDeviceType,
       VIDEO_INPUT sample_MediaDeviceType]"
    by (simp add: sample_MediaDeviceType_def)
  have k: "kind mic1 = AUDIO_INPUT sample_MediaDeviceType"
      "kind speaker1 = AUDIO_OUTPUT sample_MediaDeviceType"
      "kind cam1 = VIDEO_INPUT sample_MediaDeviceType"
      "kind midi1 \<noteq> AUDIO_INPUT sample_MediaDeviceType"
      "kind midi1 \<noteq> AUDIO_OUTPUT sample_MediaDeviceType"
      "kind midi1 \<noteq> VIDEO_INPUT sample_MediaDeviceType"
    by (simp_all add: sample_defs)
  have w: "availableDevices sample_world audioInput = [mic2]"
    by (simp add: sample_world_def)
  from d have d': "AUDIO_INPUT sample_MediaDeviceType \<noteq> AUDIO_OUTPUT sample_MediaDeviceType"
     "AUDIO_INPUT sample_MediaDeviceType \<noteq> VIDEO_INPUT sample_MediaDeviceType"
     "AUDIO_OUTPUT sample_MediaDeviceType \<noteq> VIDEO_INPUT sample_MediaDeviceType"
    by simp_all
  show ?thesis
    using C2_refresh_replaces [OF d, of "[mic1, speaker1, midi1, cam1]" sample_world] d w k d'
    by simp
qed

lemma run_append: "run mdt (evs @ evs') s = run mdt evs' (run mdt evs s)"
  by (induction evs arbitrary: s) simp_all

text \<open>
  Claim C3, as amended. The source numbers no refresh and discards no result: after any
  run that ends with the arrival of a successful enumeration \<open>L\<close>, the stored sequences
  of audioInput, audioOutput and videoInput are those of \<open>L\<close>, whichever call that result
  belongs to and whatever arrived before. The result that arrives last wins.
\<close>

theorem C3_last_arrival_wins:
  assumes "distinct [AUDIO_INPUT mdt, AUDIO_OUTPUT mdt, VIDEO_INPUT mdt]"
  shows "availableDevices (run mdt (evs @ [RefreshSettled n (Inr (Some L))]) s) audioInput
        = filter (\<lambda>d. kind d = AUDIO_INPUT mdt) L
    \<and> availableDevices (run mdt (evs @ [RefreshSettled n (Inr (Some L))]) s) audioOutput
        = filter (\<lambda>d. kind d = AUDIO_OUTPUT mdt) L
    \<and> availableDevices (run mdt (evs @ [RefreshSettled n (Inr (Some L))]) s) videoInput
        = filter (\<lambda>d. kind d = VIDEO_INPUT mdt) L"
  by (simp add: run_append refresh_resolved_lists [OF assms])

theorem C3_last_arrival_wins_witness:
  "distinct [AUDIO_INPUT sample_MediaDeviceType, AUDIO_OUTPUT sample_MediaDeviceType,
       VIDEO_INPUT sample_MediaDeviceType]
   \<and> availableDevices (run sample_MediaDeviceType
        ([RefreshIssued 1, RefreshIssued 2, RefreshSettled 2 (Inr (Some [mic2, speaker1]))]
           @ [RefreshSettled 1 (Inr (Some [mic1, cam1]))]) sample_world) audioInput = [mic1]
   \<and> availableDevices (run sample_MediaDeviceType
        ([RefreshIssued 1, RefreshIssued 2, RefreshSettled 2 (Inr (Some [mic2, speaker1]))]
           @ [RefreshSettled 1 (Inr (Some [mic1, cam1]))]) sample_world) audioOutput = []
   \<and> availableDevices (run sample_MediaDeviceType
        ([RefreshIssued 1, RefreshIssued 2, RefreshSettled 2 (Inr (Some [mic2, speaker1]))]
           @ [RefreshSettled 1 (Inr (Some [mic1, cam1]))]) sample_world) videoInput = [cam1]"
proof -
  have d: "distinct [AUDIO_INPUT sample_MediaDeviceType, AUDIO_OUTPUT sample_MediaDeviceType,
       VIDEO_INPUT sample_MediaDeviceType]"
    by (simp add: sample_MediaDeviceType_def)
  have k: "filter (\<lambda>d. kind d = AUDIO_INPUT sample_MediaDeviceType) [mic1, cam1] = [mic1]"
      "filter (\<lambda>d. kind d = AUDIO_OUTPUT sample_MediaDeviceType) [mic1, cam1] = []"
      "filter (\<lambda>d. kind d = VIDEO_INPUT sample_MediaDeviceType) [mic1, cam1] = [cam1]"
    by (simp_all add: sample_defs)
  note th = C3_last_arrival_wins [OF d,
        of "[RefreshIssued 1, RefreshIssued 2, RefreshSettled 2 (Inr (Some [mic2, speaker1]))]"
           1 "[mic1, cam1]" sample_world]
  show ?thesis
    by (rule conjI [OF d th [unfolded k]])
qed

text \<open>
  The claim as stated fails: refresh 1 is issued before refresh 2, the result of refresh 2
  arrives first, and the stored audioInput list ends as the result of refresh 1.
\<close>

theorem C3_stale_result_overwrites:
  "availableDevices (run sample_MediaDeviceType
      [RefreshIssued 1, RefreshIssued 2,
       RefreshSettled 2 (Inr (Some [mic2])), RefreshSettled 1 (Inr (Some [mic1]))]
      (MediaDevicesHandler_constructor sample_MediaDeviceType Map.empty)) audioInput = [mic1]
   \<and> availableDevices (run sample_MediaDeviceType
      [RefreshIssued 1, RefreshIssued 2,
       RefreshSettled 2 (Inr (Some [mic2])), RefreshSettled 1 (Inr (Some [mic1]))]
      (MediaDevicesHandler_constructor sample_MediaDeviceType Map.empty)) audioInput \<noteq> [mic2]"
  by (simp add: refreshMediaDevices_def koArrayPushAll_def removeAllDevices_def
      MediaDevicesHandler_constructor_def sample_defs)

text \<open>
  Claim C4. When the enumerator's promise rejects, the promise of the refresh rejects
  with the same error and the world, so the stored list of every category, is untouched.
\<close>

theorem C4_enumerator_rejection:
  "refreshMediaDevices mdt (Inl error) s = (Inl error, s)"
  by (simp add: refreshMediaDevices_def)

text \<open>
  Claim C6, as amended. Without the screen-capture capability the promise of
  \<^verbatim>\<open>getScreenSources\<close> rejects with the runtime's \<^verbatim>\<open>TypeError\<close> (not with an empty
  success), and whenever the promise rejects the world, so the screenInput list, is what
  it was before the call.
\<close>

theorem C6_screen_sources_failure:
  "getScreenSources None s = (Inl TypeError, s)
   \<and> (fst (getScreenSources desktopCapturer s) = Inl e \<longrightarrow> snd (getScreenSources desktopCapturer s) = s)"
  by (auto simp: getScreenSources_def split: option.splits prod.splits)

theorem C6_screen_sources_failure_witness:
  "fst (getScreenSources (Some (Some (HostError ''NotAllowedError''), [])) sample_world)
      = Inl (HostError ''NotAllowedError'')
   \<and> availableDevices (snd (getScreenSources (Some (Some (HostError ''NotAllowedError''), [])) sample_world))
        screenInput = [screen1]
   \<and> fst (getScreenSources None sample_world) = Inl TypeError
   \<and> availableDevices (snd (getScreenSources None sample_world)) screenInput = [screen1]"
proof -
  have h: "fst (getScreenSources (Some (Some (HostError ''NotAllowedError''), [])) sample_world)
      = Inl (HostError ''NotAllowedError'')"
    by (simp add: getScreenSources_def)
  have w: "availableDevices sample_world screenInput = [screen1]"
    by (simp add: sample_world_def)
  show ?thesis
    using C6_screen_sources_failure [of sample_world
        "Some (Some (HostError ''NotAllowedError''), [])" "HostError ''NotAllowedError''"] h w
    by simp
qed

text \<open>
  The claim as stated fails: with the capability absent the rejection is named
  \<^verbatim>\<open>TypeError\<close>, not \<^verbatim>\<open>CapabilityUnavailable\<close>.
\<close>

theorem C6_no_CapabilityUnavailable:
  "rejection_name (fst (getScreenSources None sample_world)) = Some ''TypeError''
   \<and> rejection_name (fst (getScreenSources None sample_world)) \<noteq> Some ''CapabilityUnavailable''"
  by (simp add: getScreenSources_def rejection_name_def)

lemma refresh_currentDeviceId:
  "currentDeviceId (snd (refreshMediaDevices mdt enumerated s)) = currentDeviceId s"
  by (simp add: refreshMediaDevices_def koArrayPushAll_def removeAllDevices_def Let_def
      split: sum.splits option.splits prod.splits)

lemma refresh_storage:
  "storage (snd (refreshMediaDevices mdt enumerated s)) = storage s"
  by (simp add: refreshMediaDevices_def koArrayPushAll_def removeAllDevices_def Let_def
      split: sum.splits option.splits prod.splits)

lemma refresh_screenInput:
  "availableDevices (snd (refreshMediaDevices mdt enumerated s)) screenInput
     = availableDevices s screenInput"
  by (simp add: refreshMediaDevices_def koArrayPushAll_def removeAllDevices_def Let_def
      split: sum.splits option.splits prod.splits)

lemma initialize_currentDeviceId:
  "currentDeviceId (initializeMediaDevices mdt supported enumerated s) = currentDeviceId s"
  using refresh_currentDeviceId [of mdt enumerated s]
  by (cases "refreshMediaDevices mdt enumerated s")
     (simp add: initializeMediaDevices_def subscribeToDevices_def subscribeToObservables_def
        split: sum.splits)

lemma initialize_storage:
  "storage (initializeMediaDevices mdt supported enumerated s) = storage s"
  using refresh_storage [of mdt enumerated s]
  by (cases "refreshMediaDevices mdt enumerated s")
     (simp add: initializeMediaDevices_def subscribeToDevices_def subscribeToObservables_def
        split: sum.splits)

text \<open>
  Claim C7, as amended. The constructor initialises the desired id of every category
  with what the store's read returns for the category's key, as it is: the stored string
  when there is one, absent when the store holds nothing under the key. The constructor
  puts no empty string in its place, and the first refresh and the subscriptions leave
  these values alone.
\<close>

theorem C7_desired_ids_as_loaded:
  "currentDeviceId (MediaDevicesHandler_constructor mdt st) c =
     st (case c of audioInput \<Rightarrow> AUDIO_INPUT mdt | audioOutput \<Rightarrow> AUDIO_OUTPUT mdt
           | screenInput \<Rightarrow> SCREEN_INPUT mdt | videoInput \<Rightarrow> VIDEO_INPUT mdt)
   \<and> currentDeviceId (initializeMediaDevices mdt supported enumerated (MediaDevicesHandler_constructor mdt st)) c
       = currentDeviceId (MediaDevicesHandler_constructor mdt st) c"
  by (cases c) (simp_all add: initialize_currentDeviceId MediaDevicesHandler_constructor_def loadValue_def)

text \<open>
  The claim as stated fails: constructed over an empty store, the handler holds no
  string at all as the desired audioInput id, so not the empty string.
\<close>

theorem C7_missing_value_is_absent:
  "currentDeviceId (MediaDevicesHandler_constructor sample_MediaDeviceType Map.empty) audioInput = None
   \<and> currentDeviceId (MediaDevicesHandler_constructor sample_MediaDeviceType Map.empty) audioInput
        \<noteq> Some ''''"
  by (simp add: MediaDevicesHandler_constructor_def loadValue_def)

text \<open>
  Claim C8. However the enumeration settles, a refresh leaves the screenInput list as it
  was; of all the events of a run only the completion of \<^verbatim>\<open>getScreenSources\<close> can
  change it.
\<close>

theorem C8_refresh_keeps_screenInput:
  "availableDevices (snd (refreshMediaDevices mdt enumerated s)) screenInput
     = availableDevices s screenInput
   \<and> availableDevices (step mdt ev s) screenInput =
       (case ev of
          ScreenSourcesSettled desktopCapturer \<Rightarrow>
            availableDevices (snd (getScreenSources desktopCapturer s)) screenInput
        | _ \<Rightarrow> availableDevices s screenInput)"
  by (cases ev) (simp_all add: refresh_screenInput write_currentDeviceId_def Let_def
       split: DeviceTypes.splits)

text \<open>
  Claim C9. When the enumeration resolves with a falsy value, the refresh rejects with
  \<^verbatim>\<open>Error('No media devices found')\<close> after having emptied the audioInput, audioOutput
  and videoInput lists, whereas a rejected enumeration leaves the world as it was.
\<close>

theorem C9_falsy_enumeration_clears:
  "fst (refreshMediaDevices mdt (Inr None) s) = Inl (Error ''No media devices found'')
   \<and> availableDevices (snd (refreshMediaDevices mdt (Inr None) s)) audioInput = []
   \<and> availableDevices (snd (refreshMediaDevices mdt (Inr None) s)) audioOutput = []
   \<and> availableDevices (snd (refreshMediaDevices mdt (Inr None) s)) videoInput = []
   \<and> snd (refreshMediaDevices mdt (Inl e) s) = s"
  by (simp add: refreshMediaDevices_def removeAllDevices_def Let_def)

lemma write_screenInput_storage:
  "storage (write_currentDeviceId mdt screenInput v s) = storage s"
  by (simp add: write_currentDeviceId_def Let_def)

lemma run_screenInput_writes_storage:
  "storage (run mdt (map (DeviceIdWritten screenInput) vs) s) = storage s"
  by (induction vs arbitrary: s) (simp_all add: write_screenInput_storage)

lemma write_audioInput_persisted:
  "observablesSubscribed s \<Longrightarrow> currentDeviceId s audioInput \<noteq> Some v \<Longrightarrow>
     storage (write_currentDeviceId mdt audioInput v s) (AUDIO_INPUT mdt) = Some v"
  by (simp add: write_currentDeviceId_def Let_def storeValue_def)

text \<open>
  Claim C10. Writes to the desired id of screenInput never reach the store: after any
  sequence of them the store is what it was, also on a handler fresh from construction
  and its first refresh, although construction reads the stored screenInput value.
\<close>

theorem C10_screenInput_never_persisted:
  "storage (run mdt (map (DeviceIdWritten screenInput) vs) s) = storage s
   \<and> storage (run mdt (map (DeviceIdWritten screenInput) vs)
        (initializeMediaDevices mdt supported enumerated (MediaDevicesHandler_constructor mdt st))) = st
   \<and> currentDeviceId (MediaDevicesHandler_constructor mdt st) screenInput
       = loadValue st (SCREEN_INPUT mdt)"
  by (simp add: run_screenInput_writes_storage initialize_storage MediaDevicesHandler_constructor_def)

end
